theory Spec2Isabelle
  imports Complex_Main
begin

section \<open>The payment ledger and the payout controller\<close>

text \<open>
  The backend of AptUPI keeps one row per payment in the table \<open>payments\<close> (PaymentService),
  confirms a payment once its Aptos transaction is verified (PaymentController), pays the
  merchant out through a UPI provider (UpiService, UpiController) and takes the provider's
  webhook. This section embeds those functions as they are written.

  Conventions of the embedding.
  \<^item> A raise (\<open>throw\<close>, a rejected promise, a property read on \<open>undefined\<close>) is the left
    injection of a sum; every handler returns what it passes to \<open>next\<close> as \<open>Inl\<close> and what it
    sends with \<open>res.json\<close> as \<open>Inr\<close>.
  \<^item> The table is a map from the primary key \<open>id\<close> to the row. The store is taken to be
    reachable; a query it refuses raises without changing a row, like the raise modelled here
    for a key that matches no row.
  \<^item> A request field that may be absent is an \<open>option\<close>; JavaScript's \<open>!x\<close> on it is
    \<open>\<not> truthy x\<close>.
  \<^item> What the process draws from outside (the clock, \<open>uuidv4\<close>, \<open>Math.random\<close>,
    \<open>process.env\<close>, the provider's HTTP answer, the Aptos verification) is a field of the
    record \<open>Externals\<close>: the functions are deterministic in it.
  \<^item> Fields of different TypeScript interfaces that share a name carry a prefix here
    (\<open>wh_\<close> for the webhook body, \<open>cf_\<close> for the confirmation body, \<open>po_\<close> for the payout
    body, \<open>req_\<close> for UpiPayoutRequest, \<open>resp_\<close> for UpiPayoutResponse).
\<close>

datatype error =
    HttpError string nat    \<comment> \<open>\<open>createError(message, statusCode)\<close>\<close>
  | JsError string          \<comment> \<open>\<open>new Error(message)\<close>\<close>
  | TypeError               \<comment> \<open>a property read on \<open>undefined\<close>\<close>
  | Rejected string         \<comment> \<open>a failure reported by an external service\<close>

record Payment =
  payment_id :: string
  merchantId :: string
  amountINR :: real
  stablecoinAmount :: real
  exchangeRate :: real
  walletAddress :: string
  merchantUpiId :: string
  status :: string
  aptosTransactionHash :: "string option"
  upiPayoutId :: "string option"
  createdAt :: int
  updatedAt :: int

type_synonym payments_table = "string \<rightharpoonup> Payment"

text \<open>The body sent to the provider by \<open>axios.post\<close>, and the part of its answer the code reads.\<close>

record PayoutData =
  payout_id :: string
  pd_amount :: real
  pd_currency :: string
  beneficiary_upi_id :: string
  beneficiary_name :: string
  purpose :: string
  remarks :: string

record ProviderData =
  pr_status :: "string option"
  pr_transaction_id :: "string option"

record UpiPayoutRequest =
  req_transactionId :: string
  req_merchantUpiId :: string
  req_amount :: real
  req_currency :: string

record UpiPayoutResponse =
  resp_payoutId :: string
  resp_status :: string
  resp_message :: string
  resp_transactionId :: "string option"

record Externals =
  env_NODE_ENV :: "string option"
  env_USE_UPI_MOCK :: "string option"
  uuidv4 :: "nat \<Rightarrow> string"            \<comment> \<open>the k-th identifier the process draws\<close>
  axios_post :: "PayoutData \<Rightarrow> error + ProviderData"
  mathRandom :: real
  dateNow :: int
  verifyTransaction :: "string \<Rightarrow> error + bool"
  secretKey :: string
  hmac_sha256_hex :: "string \<Rightarrow> string \<Rightarrow> string"   \<comment> \<open>key, payload\<close>

text \<open>
  The state the handlers share: the table, the number of identifiers drawn so far, and the
  log of the bodies posted to the provider (the payout requests really made).
\<close>

record World =
  payments :: payments_table
  uuidsDrawn :: nat
  providerCalls :: "PayoutData list"

definition truthy :: "string option \<Rightarrow> bool" where
  "truthy s = (case s of None \<Rightarrow> False | Some v \<Rightarrow> v \<noteq> [])"

text \<open>
  \<open>a || b\<close> on values that are a string or absent, and \<open>a || 'default'\<close>: the empty string
  is falsy like \<open>undefined\<close> and \<open>null\<close>.
\<close>

definition js_or :: "string option \<Rightarrow> string option \<Rightarrow> string option" where
  "js_or a b = (if truthy a then a else b)"

definition or_default :: "string option \<Rightarrow> string \<Rightarrow> string" where
  "or_default a d = (case a of None \<Rightarrow> d | Some v \<Rightarrow> if v = [] then d else v)"

subsection \<open>PaymentService\<close>

definition getPaymentById :: "string \<Rightarrow> payments_table \<Rightarrow> Payment option" where
  "getPaymentById pid db = db pid"

text \<open>
  \<open>UPDATE payments SET status = $1, updated_at = $2 [, aptos_transaction_hash = $3]
  WHERE id = $n RETURNING *\<close>, then \<open>mapRowToPayment(result.rows[0])\<close>: with no matching row
  \<open>rows[0]\<close> is \<open>undefined\<close> and the mapping raises.
\<close>

definition updatePaymentStatus ::
  "int \<Rightarrow> string \<Rightarrow> string \<Rightarrow> string option \<Rightarrow> payments_table \<Rightarrow> (error + Payment) \<times> payments_table"
where
  "updatePaymentStatus now pid st txHash db =
     (case db pid of
        None \<Rightarrow> (Inl TypeError, db)
      | Some row \<Rightarrow>
          let row' = (if truthy txHash
                      then row\<lparr>status := st, updatedAt := now, aptosTransactionHash := txHash\<rparr>
                      else row\<lparr>status := st, updatedAt := now\<rparr>)
          in (Inr row', db(pid \<mapsto> row')))"

definition updatePaymentPayout ::
  "int \<Rightarrow> string \<Rightarrow> string \<Rightarrow> payments_table \<Rightarrow> (error + Payment) \<times> payments_table"
where
  "updatePaymentPayout now pid payoutId db =
     (case db pid of
        None \<Rightarrow> (Inl TypeError, db)
      | Some row \<Rightarrow>
          let row' = row\<lparr>upiPayoutId := Some payoutId, updatedAt := now\<rparr>
          in (Inr row', db(pid \<mapsto> row')))"

subsection \<open>PaymentController.confirmPayment\<close>

record ConfirmBody =
  cf_transactionId :: "string option"
  cf_aptosTransactionHash :: "string option"

definition confirmPayment :: "Externals \<Rightarrow> ConfirmBody \<Rightarrow> World \<Rightarrow> (error + Payment) \<times> World" where
  "confirmPayment X b w =
     (if \<not> truthy (cf_transactionId b) \<or> \<not> truthy (cf_aptosTransactionHash b)
      then (Inl (HttpError ''Missing required fields'' 400), w)
      else
        (case (cf_transactionId b, cf_aptosTransactionHash b) of
           (Some transactionId, Some txHash) \<Rightarrow>
             (case verifyTransaction X txHash of
                Inl e \<Rightarrow> (Inl e, w)
              | Inr isValid \<Rightarrow>
                  if \<not> isValid then (Inl (HttpError ''Invalid transaction'' 400), w)
                  else
                    (case updatePaymentStatus (dateNow X) transactionId ''confirmed'' (Some txHash)
                            (payments w) of
                       (r, db') \<Rightarrow> (r, w\<lparr>payments := db'\<rparr>)))
         | _ \<Rightarrow> (Inl (HttpError ''Missing required fields'' 400), w)))"

subsection \<open>UpiController.handleUpiWebhook\<close>

record WebhookBody =
  wh_payoutId :: "string option"
  wh_status :: "string option"
  wh_transactionId :: "string option"

record WebhookRequest =
  rawBody :: string
  signatureHeader :: "string option"
  body :: WebhookBody

text \<open>
  \<open>UpiService.verifyWebhookSignature(payload, signature)\<close>: the hex HMAC-SHA256 of the payload
  under the secret key, compared with the signature.
\<close>

definition verifyWebhookSignature :: "Externals \<Rightarrow> string \<Rightarrow> string \<Rightarrow> bool" where
  "verifyWebhookSignature X payload sig = (sig = hmac_sha256_hex X (secretKey X) payload)"

text \<open>
  The handler: the signature check is commented out in the source, so the request's signature
  is never read. The status written is computed from the body's \<open>status\<close> alone. A body with
  no \<open>transactionId\<close> matches no row.
\<close>

definition webhookPaymentStatus :: "string option \<Rightarrow> string" where
  "webhookPaymentStatus st =
     (if st = Some ''SUCCESS'' then ''completed''
      else if st = Some ''FAILED'' then ''failed''
      else ''pending'')"

definition handleUpiWebhook :: "Externals \<Rightarrow> WebhookRequest \<Rightarrow> World \<Rightarrow> (error + string) \<times> World" where
  "handleUpiWebhook X req w =
     (let paymentStatus = webhookPaymentStatus (wh_status (body req)) in
      case wh_transactionId (body req) of
        None \<Rightarrow> (Inl TypeError, w)
      | Some transactionId \<Rightarrow>
          (case updatePaymentStatus (dateNow X) transactionId paymentStatus None (payments w) of
             (Inl e, db') \<Rightarrow> (Inl e, w\<lparr>payments := db'\<rparr>)
           | (Inr p, db') \<Rightarrow> (Inr ''Webhook processed successfully'', w\<lparr>payments := db'\<rparr>)))"

subsection \<open>UpiService.initiatePayout\<close>

text \<open>Template strings print \<open>Date.now()\<close> in decimal.\<close>

function decimal :: "nat \<Rightarrow> string" where
  "decimal n = (if n < 10 then [char_of (48 + n)]
                else decimal (n div 10) @ [char_of (48 + n mod 10)])"
  by pat_completeness auto
termination
  by (relation "measure (\<lambda>n. n)") auto

declare decimal.simps [simp del]

definition show_int :: "int \<Rightarrow> string" where
  "show_int i = (if i < 0 then CHR ''-'' # decimal (nat (- i)) else decimal (nat i))"

text \<open>
  \<open>try { body } catch (error) { handler }\<close>: the handler runs in the state the body left
  when it raised.
\<close>

definition try_catch ::
  "(error + 'a) \<times> 's \<Rightarrow> (error \<Rightarrow> 's \<Rightarrow> (error + 'a) \<times> 's) \<Rightarrow> (error + 'a) \<times> 's"
where
  "try_catch r handler = (case r of (Inl e, s) \<Rightarrow> handler e s | (Inr v, s) \<Rightarrow> (Inr v, s))"

definition draw_uuid :: "Externals \<Rightarrow> World \<Rightarrow> string \<times> World" where
  "draw_uuid X w = (uuidv4 X (uuidsDrawn w), w\<lparr>uuidsDrawn := Suc (uuidsDrawn w)\<rparr>)"

definition useMock :: "Externals \<Rightarrow> bool" where
  "useMock X = (env_NODE_ENV X = Some ''development'' \<or> env_USE_UPI_MOCK X = Some ''true'')"

definition mockUpiPayout :: "Externals \<Rightarrow> UpiPayoutRequest \<Rightarrow> string \<Rightarrow> UpiPayoutResponse" where
  "mockUpiPayout X request payoutId =
     (if mathRandom X < 0.8
      then \<lparr>resp_payoutId = payoutId, resp_status = ''PENDING'',
            resp_message = ''Mock payout initiated successfully'',
            resp_transactionId = Some (''mock_txn_'' @ show_int (dateNow X))\<rparr>
      else \<lparr>resp_payoutId = payoutId, resp_status = ''FAILED'',
            resp_message = ''Mock payout failed - insufficient balance'',
            resp_transactionId = None\<rparr>)"

definition payoutDataOf :: "UpiPayoutRequest \<Rightarrow> string \<Rightarrow> PayoutData" where
  "payoutDataOf request payoutId =
     \<lparr>payout_id = payoutId, pd_amount = req_amount request, pd_currency = req_currency request,
      beneficiary_upi_id = req_merchantUpiId request, beneficiary_name = ''Merchant Name'',
      purpose = ''PAYMENT'',
      remarks = ''AptPay payment for transaction '' @ req_transactionId request\<rparr>"

text \<open>The body of the \<open>try\<close> block of \<open>initiatePayout\<close>.\<close>

definition initiatePayout_body ::
  "Externals \<Rightarrow> UpiPayoutRequest \<Rightarrow> World \<Rightarrow> (error + UpiPayoutResponse) \<times> World"
where
  "initiatePayout_body X request w =
     (case draw_uuid X w of
        (payoutId, w1) \<Rightarrow>
          if useMock X then (Inr (mockUpiPayout X request payoutId), w1)
          else
            (let payoutData = payoutDataOf request payoutId;
                 w2 = w1\<lparr>providerCalls := providerCalls w1 @ [payoutData]\<rparr>
             in case axios_post X payoutData of
                  Inl e \<Rightarrow> (Inl e, w2)
                | Inr d \<Rightarrow>
                    (Inr \<lparr>resp_payoutId = payoutId,
                          resp_status = or_default (pr_status d) ''PENDING'',
                          resp_message = ''Payout initiated successfully'',
                          resp_transactionId = pr_transaction_id d\<rparr>, w2)))"

definition initiatePayout ::
  "Externals \<Rightarrow> UpiPayoutRequest \<Rightarrow> World \<Rightarrow> (error + UpiPayoutResponse) \<times> World"
where
  "initiatePayout X request w =
     try_catch (initiatePayout_body X request w)
       (\<lambda>e w'. case draw_uuid X w' of
                 (fresh, w'') \<Rightarrow>
                   (Inr \<lparr>resp_payoutId = fresh, resp_status = ''FAILED'',
                         resp_message = ''Failed to initiate payout'',
                         resp_transactionId = None\<rparr>, w''))"

subsection \<open>UpiController.initiateUpiPayout\<close>

record PayoutBody =
  po_transactionId :: "string option"
  po_merchantUpiId :: "string option"
  po_amountINR :: "real option"

record PayoutReply =
  reply_payoutId :: string
  reply_status :: string
  reply_message :: string

definition missingFields :: "PayoutBody \<Rightarrow> bool" where
  "missingFields b =
     (\<not> truthy (po_transactionId b) \<or> \<not> truthy (po_merchantUpiId b) \<or>
      po_amountINR b = None \<or> po_amountINR b = Some 0)"

definition initiateUpiPayout :: "Externals \<Rightarrow> PayoutBody \<Rightarrow> World \<Rightarrow> (error + PayoutReply) \<times> World" where
  "initiateUpiPayout X b w =
     (case (po_transactionId b, po_merchantUpiId b, po_amountINR b) of
        (Some transactionId, Some upiId, Some amount) \<Rightarrow>
          if missingFields b then (Inl (HttpError ''Missing required fields'' 400), w)
          else
            (case getPaymentById transactionId (payments w) of
               None \<Rightarrow> (Inl (HttpError ''Payment not found'' 404), w)
             | Some payment \<Rightarrow>
                 if status payment \<noteq> ''confirmed''
                 then (Inl (HttpError ''Payment not confirmed yet'' 400), w)
                 else
                   (case initiatePayout X
                           \<lparr>req_transactionId = transactionId, req_merchantUpiId = upiId,
                            req_amount = amount, req_currency = ''INR''\<rparr> w of
                      (Inl e, w1) \<Rightarrow> (Inl e, w1)
                    | (Inr payout, w1) \<Rightarrow>
                        (case updatePaymentPayout (dateNow X) transactionId (resp_payoutId payout)
                                (payments w1) of
                           (Inl e, db') \<Rightarrow> (Inl e, w1\<lparr>payments := db'\<rparr>)
                         | (Inr p, db') \<Rightarrow>
                             (Inr \<lparr>reply_payoutId = resp_payoutId payout,
                                   reply_status = resp_status payout,
                                   reply_message = ''UPI payout initiated successfully''\<rparr>,
                              w1\<lparr>payments := db'\<rparr>))))
      | _ \<Rightarrow> (Inl (HttpError ''Missing required fields'' 400), w))"

text \<open>The status of the payment a key refers to, when the table has it.\<close>

definition statusOf :: "World \<Rightarrow> string \<Rightarrow> string option" where
  "statusOf w pid = map_option status (payments w pid)"

section \<open>The exchange-rate oracle\<close>

text \<open>
  \<open>OracleService\<close> keeps a cache from the key \<open>from-to\<close> to the last rate and the time it
  was stored. The state of the embedding adds the log of the URLs fetched, so that "no
  external fetch" is a statement about the state. The answers of the two rate sources are
  parameters: \<open>Inl\<close> for a request that fails, \<open>Inr None\<close> for an answer without the field
  read, \<open>Inr (Some r)\<close> for the number \<open>r\<close>. \<open>Date.now()\<close> at the cache check is \<open>now\<close>; the
  \<open>new Date()\<close> that stamps a new entry, taken after the requests, is \<open>now'\<close>. Numbers are
  reals: the one division, \<open>1 / usdcToInr\<close>, is exact here and rounded in JavaScript.
\<close>

record CacheEntry =
  rate :: real
  timestamp :: int

record OracleService =
  cache :: "string \<rightharpoonup> CacheEntry"
  requests :: "string list"

record RateSources =
  coingecko :: "error + real option"
  exchangerate_api :: "error + real option"

definition cacheTimeout :: int where
  "cacheTimeout = 60000"

definition cacheValid :: "CacheEntry option \<Rightarrow> int \<Rightarrow> bool" where
  "cacheValid cached now =
     (case cached of None \<Rightarrow> False | Some c \<Rightarrow> now - timestamp c < cacheTimeout)"

definition getFallbackUSDCToINRRate :: "RateSources \<Rightarrow> OracleService \<Rightarrow> (error + real) \<times> OracleService" where
  "getFallbackUSDCToINRRate S svc =
     try_catch
       (let svc1 = svc\<lparr>requests := requests svc @ [''https://api.exchangerate-api.com/v4/latest/USD'']\<rparr>
        in case exchangerate_api S of
             Inl e \<Rightarrow> (Inl e, svc1)
           | Inr None \<Rightarrow> (Inl (JsError ''Invalid response from exchange rate API''), svc1)
           | Inr (Some inrRate) \<Rightarrow>
               if inrRate = 0 then (Inl (JsError ''Invalid response from exchange rate API''), svc1)
               else (Inr inrRate, svc1))
       (\<lambda>e s. (Inr 84.0, s))"

definition getUSDCToINRRate :: "RateSources \<Rightarrow> OracleService \<Rightarrow> (error + real) \<times> OracleService" where
  "getUSDCToINRRate S svc =
     try_catch
       (let svc1 = svc\<lparr>requests := requests svc @ [''https://api.coingecko.com/api/v3/simple/price'']\<rparr>
        in case coingecko S of
             Inl e \<Rightarrow> (Inl e, svc1)
           | Inr None \<Rightarrow> (Inl (JsError ''Invalid response from price API''), svc1)
           | Inr (Some r) \<Rightarrow>
               if r = 0 then (Inl (JsError ''Invalid response from price API''), svc1)
               else (Inr r, svc1))
       (\<lambda>e s. getFallbackUSDCToINRRate S s)"

text \<open>The branch on the currency pair inside the \<open>try\<close> block of \<open>getExchangeRate\<close>.\<close>

definition fetchRate ::
  "RateSources \<Rightarrow> string \<Rightarrow> string \<Rightarrow> OracleService \<Rightarrow> (error + real) \<times> OracleService"
where
  "fetchRate S fromCurrency toCurrency svc =
     (if fromCurrency = ''USDC'' \<and> toCurrency = ''INR'' then getUSDCToINRRate S svc
      else if fromCurrency = ''INR'' \<and> toCurrency = ''USDC'' then
        (case getUSDCToINRRate S svc of
           (Inl e, s) \<Rightarrow> (Inl e, s)
         | (Inr usdcToInr, s) \<Rightarrow> (Inr (1 / usdcToInr), s))
      else (Inl (JsError (''Unsupported currency pair: '' @ fromCurrency @ ''/'' @ toCurrency)), svc))"

definition cacheKeyOf :: "string \<Rightarrow> string \<Rightarrow> string" where
  "cacheKeyOf fromCurrency toCurrency = fromCurrency @ ''-'' @ toCurrency"

text \<open>
  The \<open>try\<close>/\<open>catch\<close> of \<open>getExchangeRate\<close>, entered on a miss or an expired entry: \<open>cached\<close> is
  the entry read at the start.
\<close>

definition getExchangeRate_fetch ::
  "RateSources \<Rightarrow> int \<Rightarrow> string \<Rightarrow> string \<Rightarrow> CacheEntry option \<Rightarrow> OracleService
     \<Rightarrow> (error + real) \<times> OracleService"
where
  "getExchangeRate_fetch S now' fromCurrency toCurrency cached svc =
     try_catch
       (case fetchRate S fromCurrency toCurrency svc of
          (Inl e, s) \<Rightarrow> (Inl e, s)
        | (Inr r, s) \<Rightarrow>
            (Inr r, s\<lparr>cache := (cache s)(cacheKeyOf fromCurrency toCurrency \<mapsto>
                                     \<lparr>rate = r, timestamp = now'\<rparr>)\<rparr>))
       (\<lambda>e s. case cached of
                 Some c \<Rightarrow> (Inr (rate c), s)
               | None \<Rightarrow>
                   (Inr (if fromCurrency = ''USDC'' \<and> toCurrency = ''INR'' then 84.0 else 0.012), s))"

definition getExchangeRate ::
  "RateSources \<Rightarrow> int \<Rightarrow> int \<Rightarrow> string \<Rightarrow> string \<Rightarrow> OracleService \<Rightarrow> (error + real) \<times> OracleService"
where
  "getExchangeRate S now now' fromCurrency toCurrency svc =
     (let cached = cache svc (cacheKeyOf fromCurrency toCurrency)
      in case cached of
           None \<Rightarrow> getExchangeRate_fetch S now' fromCurrency toCurrency cached svc
         | Some c \<Rightarrow>
             if now - timestamp c < cacheTimeout then (Inr (rate c), svc)
             else getExchangeRate_fetch S now' fromCurrency toCurrency cached svc)"

text \<open>A rate source fails when the request fails or the answer has no usable rate (\<open>!rate\<close>).\<close>

definition sourceFails :: "error + real option \<Rightarrow> bool" where
  "sourceFails a = (case a of Inl e \<Rightarrow> True | Inr None \<Rightarrow> True | Inr (Some r) \<Rightarrow> r = 0)"

section \<open>The QR payload parser\<close>

text \<open>
  \<open>UPIQRScanner.tsx\<close> turns the decoded text of a QR code into a \<open>UPIData\<close> or \<open>null\<close>
  (\<open>None\<close>). Conventions of this section.
  \<^item> A JavaScript string is the list of its characters. The functions below are the
    string methods the parser calls, on ASCII text: \<open>toLowerCase\<close> maps \<open>A\<close>..\<open>Z\<close>, \<open>trim\<close>
    removes tab, line feed, vertical tab, form feed, carriage return and space, \<open>\d\<close> is a
    digit \<open>0\<close>..\<open>9\<close>. White space and case mappings beyond ASCII are not modelled.
  \<^item> \<open>new URL(s).searchParams\<close> belongs to the platform. The parsers take it as the
    parameter \<open>URL_searchParams\<close>: \<open>None\<close> when the constructor raises, otherwise the decoded
    name/value pairs of the query in order. \<open>params.get(name)\<close> is the first pair with that
    name.
  \<^item> The last dialect tried by \<open>parseUPIQRCode\<close>, \<open>JSON.parse\<close> followed by
    \<open>parseJSONUPIFormat\<close>, is the parameter \<open>jsonDialect\<close>: no property below concerns an
    input that reaches it.
\<close>

definition newline :: char where
  "newline = CHR 0x0A"

definition isWhiteSpace :: "char \<Rightarrow> bool" where
  "isWhiteSpace c = (c \<in> set [CHR 0x09, CHR 0x0A, CHR 0x0B, CHR 0x0C, CHR 0x0D, CHR '' ''])"

definition isDigit :: "char \<Rightarrow> bool" where
  "isDigit c = (c \<in> set ''0123456789'')"

definition toLowerChar :: "char \<Rightarrow> char" where
  "toLowerChar c =
     (case map_of (zip ''ABCDEFGHIJKLMNOPQRSTUVWXYZ'' ''abcdefghijklmnopqrstuvwxyz'') c of
        Some l \<Rightarrow> l
      | None \<Rightarrow> c)"

definition toLowerCase :: "string \<Rightarrow> string" where
  "toLowerCase s = map toLowerChar s"

definition startsWith :: "string \<Rightarrow> string \<Rightarrow> bool" where
  "startsWith s p = (take (length p) s = p)"

text \<open>\<open>s.includes(sub)\<close>, \<open>s.split(sep)\<close> for a one-character separator, \<open>s.trim()\<close>.\<close>

fun str_includes :: "string \<Rightarrow> string \<Rightarrow> bool" where
  "str_includes [] sub = (sub = [])"
| "str_includes (c # cs) sub = (startsWith (c # cs) sub \<or> str_includes cs sub)"

fun split_on :: "char \<Rightarrow> string \<Rightarrow> string list" where
  "split_on sep [] = [[]]"
| "split_on sep (c # cs) =
     (if c = sep then [] # split_on sep cs
      else (case split_on sep cs of
              [] \<Rightarrow> [[c]]
            | l # ls \<Rightarrow> (c # l) # ls))"

definition trim :: "string \<Rightarrow> string" where
  "trim s = rev (dropWhile isWhiteSpace (rev (dropWhile isWhiteSpace s)))"

text \<open>\<open>s.replace(pat, rep)\<close> with a string pattern: the first occurrence only.\<close>

fun replaceFirst :: "string \<Rightarrow> string \<Rightarrow> string \<Rightarrow> string" where
  "replaceFirst pat rep [] = (if pat = [] then rep else [])"
| "replaceFirst pat rep (c # cs) =
     (if startsWith (c # cs) pat then rep @ drop (length pat) (c # cs)
      else c # replaceFirst pat rep cs)"

text \<open>
  \<open>s.match(/\d+(\.\d+)?/)\<close>: the leftmost match, which starts at the first digit, takes all
  the digits that follow and then, if a dot and a digit come next, the dot and the digits after
  it. \<open>None\<close> is \<open>null\<close>. \<open>hasDigit\<close> is the truth of \<open>s.match(/\d+/)\<close>.
\<close>

fun matchNumber :: "string \<Rightarrow> string option" where
  "matchNumber [] = None"
| "matchNumber (c # cs) =
     (if isDigit c then
        (let ds = takeWhile isDigit (c # cs); rest = dropWhile isDigit (c # cs)
         in case rest of
              d # r \<Rightarrow>
                if d = CHR ''.'' \<and> takeWhile isDigit r \<noteq> []
                then Some (ds @ [d] @ takeWhile isDigit r)
                else Some ds
            | [] \<Rightarrow> Some ds)
      else matchNumber cs)"

definition hasDigit :: "string \<Rightarrow> bool" where
  "hasDigit s = list_ex isDigit s"

record UPIData =
  payeeAddress :: string
  payeeName :: string
  amount :: string
  transactionNote :: string
  merchantCode :: string
  transactionRef :: string
  rawData :: string

type_synonym url_library = "string \<Rightarrow> (string \<times> string) list option"

definition params_get :: "(string \<times> string) list \<Rightarrow> string \<Rightarrow> string option" where
  "params_get params name = map_of params name"

definition parseUPIURL :: "url_library \<Rightarrow> string \<Rightarrow> UPIData option" where
  "parseUPIURL URL_searchParams data =
     (case URL_searchParams (replaceFirst ''upi://'' ''https://'' data) of
        None \<Rightarrow> None
      | Some params \<Rightarrow>
          (let pa = or_default (params_get params ''pa'') '''';
               pn = or_default (params_get params ''pn'') ''Unknown Merchant'';
               am = or_default (js_or (params_get params ''am'') (params_get params ''amount'')) '''';
               tn = or_default (js_or (params_get params ''tn'') (params_get params ''note'')) '''';
               mc = or_default (js_or (params_get params ''mc'') (params_get params ''mid'')) '''';
               tr = or_default (js_or (params_get params ''tr'') (params_get params ''tid'')) ''''
           in if pa = [] then None
              else Some \<lparr>payeeAddress = pa, payeeName = pn, amount = am, transactionNote = tn,
                         merchantCode = mc, transactionRef = tr, rawData = data\<rparr>))"

text \<open>
  \<open>parseAlternativeUPIFormat\<close>: the body of the \<open>for\<close> loop is \<open>altStep\<close> on the triple
  \<open>(payeeAddress, payeeName, amount)\<close>; the loop is the left fold over the trimmed lines.
\<close>

definition altStep :: "string \<times> string \<times> string \<Rightarrow> string \<Rightarrow> string \<times> string \<times> string" where
  "altStep st line =
     (case st of (pa, pn, am) \<Rightarrow>
        if str_includes line ''@'' then (line, pn, am)
        else if str_includes (toLowerCase line) ''amount'' \<or> str_includes (toLowerCase line) ''rs'' then
          (case matchNumber line of
             Some amountMatch \<Rightarrow> (pa, pn, amountMatch)
           | None \<Rightarrow> (pa, pn, am))
        else if length line > 3 \<and> \<not> str_includes line ''@'' \<and> \<not> hasDigit line then (pa, line, am)
        else (pa, pn, am))"

definition parseAlternativeUPIFormat :: "string \<Rightarrow> UPIData option" where
  "parseAlternativeUPIFormat data =
     (let lines = map trim (split_on newline data)
      in case foldl altStep ('''', ''Unknown Merchant'', '''') lines of
           (pa, pn, am) \<Rightarrow>
             if pa = [] then None
             else Some \<lparr>payeeAddress = pa, payeeName = pn, amount = am, transactionNote = '''',
                        merchantCode = '''', transactionRef = '''', rawData = data\<rparr>)"

definition parseUPIQRCode :: "url_library \<Rightarrow> (string \<Rightarrow> UPIData option) \<Rightarrow> string \<Rightarrow> UPIData option" where
  "parseUPIQRCode URL_searchParams jsonDialect data =
     (if startsWith data ''upi://pay'' then
        (case URL_searchParams data of
           None \<Rightarrow> None
         | Some params \<Rightarrow>
             (let pa = or_default (params_get params ''pa'') '''';
                  pn = or_default (params_get params ''pn'') '''';
                  am = or_default (params_get params ''am'') '''';
                  tn = or_default (js_or (params_get params ''tn'') (params_get params ''tr'')) '''';
                  mc = or_default (js_or (params_get params ''mc'') (params_get params ''mid'')) '''';
                  tr = or_default (js_or (params_get params ''tr'') (params_get params ''tid'')) ''''
              in if pa = [] then None
                 else Some \<lparr>payeeAddress = pa, payeeName = pn, amount = am, transactionNote = tn,
                            merchantCode = mc, transactionRef = tr, rawData = data\<rparr>))
      else if str_includes (toLowerCase data) ''upi://pay?'' \<or> str_includes (toLowerCase data) ''upiqr''
        then parseUPIURL URL_searchParams data
      else if str_includes data ''@'' \<and>
              (str_includes data ''paytm'' \<or> str_includes data ''phonepe'' \<or> str_includes data ''gpay'' \<or>
               str_includes data ''ybl'')
        then parseAlternativeUPIFormat data
      else jsonDialect data)"

section \<open>Predicates the properties are stated with\<close>

text \<open>
  What it means for a webhook request to carry a valid signature: the header is present and
  \<open>verifyWebhookSignature\<close> accepts it for the raw body.
\<close>

definition carriesValidSignature :: "Externals \<Rightarrow> WebhookRequest \<Rightarrow> bool" where
  "carriesValidSignature X req =
     (case signatureHeader req of
        None \<Rightarrow> False
      | Some sig \<Rightarrow> verifyWebhookSignature X (rawBody req) sig)"

text \<open>
  The condition under which \<open>initiateUpiPayout\<close> goes on to the provider: the body names a
  payment the table has, and its status is \<open>confirmed\<close>.
\<close>

definition refersToConfirmed :: "PayoutBody \<Rightarrow> World \<Rightarrow> bool" where
  "refersToConfirmed b w =
     (case po_transactionId b of
        None \<Rightarrow> False
      | Some tid \<Rightarrow> (case payments w tid of None \<Rightarrow> False | Some p \<Rightarrow> status p = ''confirmed''))"

text \<open>
  The trimmed lines of a payload, and the three kinds of line the loop of
  \<open>parseAlternativeUPIFormat\<close> tells apart, in the order of its \<open>if\<close> chain: a line with
  \<open>@\<close>; else a line that mentions \<open>amount\<close> or \<open>rs\<close> in any case; else a line longer than 3
  characters without a digit.
\<close>

definition linesOf :: "string \<Rightarrow> string list" where
  "linesOf data = map trim (split_on newline data)"

definition isAddressLine :: "string \<Rightarrow> bool" where
  "isAddressLine line = str_includes line ''@''"

definition isAmountLine :: "string \<Rightarrow> bool" where
  "isAmountLine line =
     (str_includes (toLowerCase line) ''amount'' \<or> str_includes (toLowerCase line) ''rs'')"

definition isNameLine :: "string \<Rightarrow> bool" where
  "isNameLine line =
     (\<not> isAddressLine line \<and> \<not> isAmountLine line \<and> length line > 3 \<and> \<not> hasDigit line)"

definition lastOr :: "'a \<Rightarrow> 'a list \<Rightarrow> 'a" where
  "lastOr d xs = (case rev xs of [] \<Rightarrow> d | x # _ \<Rightarrow> x)"

text \<open>
  The payee name as claim C5 words it: the first line of length above 3 with no \<open>@\<close> and no
  digit, \<open>Unknown Merchant\<close> when there is none.
\<close>

definition claimedPayeeName :: "string \<Rightarrow> string" where
  "claimedPayeeName data =
     (case filter (\<lambda>line. length line > 3 \<and> \<not> str_includes line ''@'' \<and> \<not> hasDigit line)
             (linesOf data) of
        [] \<Rightarrow> ''Unknown Merchant''
      | line # _ \<Rightarrow> line)"

section \<open>Sample inputs\<close>

text \<open>
  Concrete requests, tables and outside answers at which the functions are evaluated: one
  payment \<open>t1\<close> in a chosen status, a production environment whose provider refuses the
  connection, an Aptos verification that accepts, and identifiers \<open>uuid-0\<close>, \<open>uuid-1\<close>, ...
\<close>

definition samplePayment :: "string \<Rightarrow> Payment" where
  "samplePayment st =
     \<lparr>payment_id = ''t1'', merchantId = ''m1'', amountINR = 100, stablecoinAmount = 100 / 84,
      exchangeRate = 84, walletAddress = ''0xabc'', merchantUpiId = ''shop@upi'', status = st,
      aptosTransactionHash = (if st = ''pending'' then None else Some ''0xhash''),
      upiPayoutId = None, createdAt = 1000, updatedAt = 1000\<rparr>"

definition sampleWorld :: "string \<Rightarrow> World" where
  "sampleWorld st = \<lparr>payments = [''t1'' \<mapsto> samplePayment st], uuidsDrawn = 0, providerCalls = []\<rparr>"

definition sampleExternals :: Externals where
  "sampleExternals =
     \<lparr>env_NODE_ENV = Some ''production'', env_USE_UPI_MOCK = None,
      uuidv4 = (\<lambda>k. ''uuid-'' @ decimal k),
      axios_post = (\<lambda>d. Inl (Rejected ''ECONNREFUSED'')),
      mathRandom = 0.5, dateNow = 2000,
      verifyTransaction = (\<lambda>h. Inr True),
      secretKey = ''demo_secret_key'',
      hmac_sha256_hex = (\<lambda>k p. ''0f'')\<rparr>"

definition webhookOf :: "string \<Rightarrow> string option \<Rightarrow> string option \<Rightarrow> WebhookRequest" where
  "webhookOf st tid sig =
     \<lparr>rawBody = ''{}'', signatureHeader = sig,
      body = \<lparr>wh_payoutId = Some ''p1'', wh_status = Some st, wh_transactionId = tid\<rparr>\<rparr>"

definition confirmBodyOf :: "string \<Rightarrow> string \<Rightarrow> ConfirmBody" where
  "confirmBodyOf tid h = \<lparr>cf_transactionId = Some tid, cf_aptosTransactionHash = Some h\<rparr>"

definition payoutBodyOf :: "string \<Rightarrow> PayoutBody" where
  "payoutBodyOf tid =
     \<lparr>po_transactionId = Some tid, po_merchantUpiId = Some ''shop@upi'', po_amountINR = Some 100\<rparr>"

text \<open>
  For the oracle: two sources that both fail, two that answer, a service whose only entry is
  older than the cache timeout, and a service with an empty cache.
\<close>

definition failingSources :: RateSources where
  "failingSources = \<lparr>coingecko = Inl (Rejected ''timeout of 5000ms exceeded''),
                      exchangerate_api = Inl (Rejected ''ENOTFOUND'')\<rparr>"

definition healthySources :: RateSources where
  "healthySources = \<lparr>coingecko = Inr (Some 83.2), exchangerate_api = Inr (Some 83.1)\<rparr>"

definition staleService :: OracleService where
  "staleService = \<lparr>cache = [''USDC-INR'' \<mapsto> \<lparr>rate = 83.5, timestamp = 0\<rparr>], requests = []\<rparr>"

definition emptyService :: OracleService where
  "emptyService = \<lparr>cache = Map.empty, requests = []\<rparr>"

text \<open>
  For the parser: the payload of claim C5, a payload with two candidate name lines, one whose
  name contains \<open>rs\<close>, and what \<open>new URL(s).searchParams\<close> holds for the four URLs
  evaluated below (the query split at \<open>&\<close> and \<open>=\<close>; nothing in them is escaped).
\<close>

definition teaShop :: string where
  "teaShop = ''shop@paytm'' @ [newline] @ ''Tea Shop'' @ [newline] @ ''Amount: Rs 20''"

definition twoNames :: string where
  "twoNames = ''shop@paytm'' @ [newline] @ ''Tea Shop'' @ [newline] @ ''Good Food''"

definition farmers :: string where
  "farmers = ''shop@paytm'' @ [newline] @ ''Farmers Market''"

definition observedURL :: url_library where
  "observedURL = map_of
     [(''upi://pay?pa=shop@upi'', [(''pa'', ''shop@upi'')]),
      (''https://pay?pa=shop@upi'', [(''pa'', ''shop@upi'')]),
      (''upi://pay?pa=a@b&amount=5&note=hi'', [(''pa'', ''a@b''), (''amount'', ''5''), (''note'', ''hi'')]),
      (''https://pay?pa=a@b&amount=5&note=hi'', [(''pa'', ''a@b''), (''amount'', ''5''), (''note'', ''hi'')])]"

section \<open>Properties of the ledger and the payout controller\<close>

subsection \<open>What the operations do to the table\<close>

lemma updatePaymentStatus_found:
  "db pid = Some row \<Longrightarrow>
   updatePaymentStatus now pid st None db =
     (Inr (row\<lparr>status := st, updatedAt := now\<rparr>), db(pid \<mapsto> row\<lparr>status := st, updatedAt := now\<rparr>))"
  by (simp add: updatePaymentStatus_def truthy_def Let_def)

lemma handleUpiWebhook_found:
  assumes "wh_transactionId (body req) = Some tid" and "payments w tid = Some p"
  shows "handleUpiWebhook X req w =
           (Inr ''Webhook processed successfully'',
            w\<lparr>payments := (payments w)(tid \<mapsto>
                 p\<lparr>status := webhookPaymentStatus (wh_status (body req)), updatedAt := dateNow X\<rparr>)\<rparr>)"
  using assms by (simp add: handleUpiWebhook_def updatePaymentStatus_found)

lemma handleUpiWebhook_missing:
  assumes "wh_transactionId (body req) = Some tid" and "payments w tid = None"
  shows "handleUpiWebhook X req w = (Inl TypeError, w)"
  using assms by (simp add: handleUpiWebhook_def updatePaymentStatus_def)

lemma handleUpiWebhook_ignores_signature:
  "handleUpiWebhook X (req\<lparr>signatureHeader := sig, rawBody := raw\<rparr>) w = handleUpiWebhook X req w"
  by (simp add: handleUpiWebhook_def)

lemma handleUpiWebhook_other:
  assumes "wh_transactionId (body req) \<noteq> Some tid'"
  shows "payments (snd (handleUpiWebhook X req w)) tid' = payments w tid'"
  using assms
  by (auto simp: handleUpiWebhook_def updatePaymentStatus_def Let_def
           split: option.splits prod.splits sum.splits)

lemma confirmPayment_found:
  assumes "payments w tid = Some p" and "tid \<noteq> []" and "h \<noteq> []"
    and "verifyTransaction X h = Inr True"
  shows "confirmPayment X (confirmBodyOf tid h) w =
           (Inr (p\<lparr>status := ''confirmed'', updatedAt := dateNow X, aptosTransactionHash := Some h\<rparr>),
            w\<lparr>payments := (payments w)(tid \<mapsto>
                 p\<lparr>status := ''confirmed'', updatedAt := dateNow X,
                   aptosTransactionHash := Some h\<rparr>)\<rparr>)"
  using assms
  by (simp add: confirmPayment_def confirmBodyOf_def truthy_def updatePaymentStatus_def Let_def)

lemma confirmPayment_other:
  assumes "cf_transactionId b \<noteq> Some tid'"
  shows "payments (snd (confirmPayment X b w)) tid' = payments w tid'"
  using assms
  by (auto simp: confirmPayment_def updatePaymentStatus_def Let_def
           split: option.splits prod.splits sum.splits)

lemma confirmPayment_no_payout:
  "providerCalls (snd (confirmPayment X b w)) = providerCalls w \<and>
   uuidsDrawn (snd (confirmPayment X b w)) = uuidsDrawn w"
  by (auto simp: confirmPayment_def updatePaymentStatus_def Let_def
           split: option.splits prod.splits sum.splits)

subsection \<open>The webhook\<close>

text \<open>
  Claim C1 says that a webhook request without a valid HMAC-SHA256 signature over its raw body
  changes nothing. The handler never reads the signature (the check is commented out under the
  comment "Verify webhook signature"), so the claim fails on the code: a request with no
  signature header at all, and one with a forged signature, both move the confirmed payment
  \<open>t1\<close> to a final status. The theorem evaluates the handler at these two requests.
\<close>

theorem webhook_applied_without_signature:
  "\<not> carriesValidSignature X (webhookOf ''SUCCESS'' (Some ''t1'') None) \<and>
   statusOf (sampleWorld ''confirmed'') ''t1'' = Some ''confirmed'' \<and>
   statusOf (snd (handleUpiWebhook X (webhookOf ''SUCCESS'' (Some ''t1'') None)
                    (sampleWorld ''confirmed''))) ''t1'' = Some ''completed'' \<and>
   \<not> carriesValidSignature sampleExternals (webhookOf ''FAILED'' (Some ''t1'') (Some ''forged'')) \<and>
   statusOf (snd (handleUpiWebhook sampleExternals (webhookOf ''FAILED'' (Some ''t1'') (Some ''forged''))
                    (sampleWorld ''confirmed''))) ''t1'' = Some ''failed''"
proof -
  have b: "payments (sampleWorld ''confirmed'') ''t1'' = Some (samplePayment ''confirmed'')"
    by (simp add: sampleWorld_def)
  have a: "wh_transactionId (body (webhookOf st (Some ''t1'') sig)) = Some ''t1''" for st sig
    by (simp add: webhookOf_def)
  have s: "wh_status (body (webhookOf st (Some ''t1'') sig)) = Some st" for st sig
    by (simp add: webhookOf_def)
  have 1: "\<not> carriesValidSignature X (webhookOf ''SUCCESS'' (Some ''t1'') None)"
    by (simp add: carriesValidSignature_def webhookOf_def)
  have 2: "\<not> carriesValidSignature sampleExternals (webhookOf ''FAILED'' (Some ''t1'') (Some ''forged''))"
    by (simp add: carriesValidSignature_def webhookOf_def verifyWebhookSignature_def sampleExternals_def)
  have 3: "statusOf (sampleWorld ''confirmed'') ''t1'' = Some ''confirmed''"
    by (simp add: statusOf_def sampleWorld_def samplePayment_def)
  show ?thesis
    using 1 2 3
    by (simp add: handleUpiWebhook_found [OF a b] s statusOf_def webhookPaymentStatus_def)
qed

text \<open>
  Claim C8: for every webhook whose \<open>status\<close> field is neither \<open>SUCCESS\<close> nor \<open>FAILED\<close>
  (an absent field included), \<open>handleUpiWebhook\<close> answers with success and sets the status of
  the payment its \<open>transactionId\<close> refers to to \<open>pending\<close>, whatever the status was.
\<close>

theorem webhook_other_status_sets_pending:
  assumes "wh_transactionId (body req) = Some tid"
    and "payments w tid = Some p"
    and "wh_status (body req) \<noteq> Some ''SUCCESS''"
    and "wh_status (body req) \<noteq> Some ''FAILED''"
  shows "fst (handleUpiWebhook X req w) = Inr ''Webhook processed successfully'' \<and>
         statusOf (snd (handleUpiWebhook X req w)) tid = Some ''pending''"
  using assms by (simp add: handleUpiWebhook_found statusOf_def webhookPaymentStatus_def)

text \<open>The witness: a webhook with status \<open>PENDING\<close> takes the completed payment back to \<open>pending\<close>.\<close>

theorem webhook_other_status_sets_pending_witness:
  "statusOf (sampleWorld ''completed'') ''t1'' = Some ''completed'' \<and>
   statusOf (snd (handleUpiWebhook sampleExternals (webhookOf ''PENDING'' (Some ''t1'') None)
                    (sampleWorld ''completed''))) ''t1'' = Some ''pending''"
proof -
  let ?req = "webhookOf ''PENDING'' (Some ''t1'') None"
  have a: "wh_transactionId (body ?req) = Some ''t1''" by (simp add: webhookOf_def)
  have b: "payments (sampleWorld ''completed'') ''t1'' = Some (samplePayment ''completed'')"
    by (simp add: sampleWorld_def)
  have c: "wh_status (body ?req) \<noteq> Some ''SUCCESS''" by (simp add: webhookOf_def)
  have d: "wh_status (body ?req) \<noteq> Some ''FAILED''" by (simp add: webhookOf_def)
  from webhook_other_status_sets_pending [OF a b c d, of sampleExternals]
  show ?thesis by (simp add: statusOf_def sampleWorld_def samplePayment_def)
qed

subsection \<open>Terminal statuses\<close>

text \<open>
  Claim C2 says that \<open>completed\<close> and \<open>failed\<close> are terminal and that \<open>completed\<close> is reached
  from \<open>confirmed\<close> only. The code has no transition guard anywhere. Counterexample:
  \<open>confirmPayment\<close> takes the completed payment \<open>t1\<close> back to \<open>confirmed\<close>, a \<open>SUCCESS\<close> webhook
  takes the failed payment to \<open>completed\<close>, and the same webhook takes the pending payment
  straight to \<open>completed\<close>.
\<close>

theorem terminal_status_counterexample:
  "statusOf (sampleWorld ''completed'') ''t1'' = Some ''completed'' \<and>
   statusOf (snd (confirmPayment sampleExternals (confirmBodyOf ''t1'' ''0xhash'')
                    (sampleWorld ''completed''))) ''t1'' = Some ''confirmed'' \<and>
   statusOf (sampleWorld ''failed'') ''t1'' = Some ''failed'' \<and>
   statusOf (snd (handleUpiWebhook sampleExternals (webhookOf ''SUCCESS'' (Some ''t1'') None)
                    (sampleWorld ''failed''))) ''t1'' = Some ''completed'' \<and>
   statusOf (sampleWorld ''pending'') ''t1'' = Some ''pending'' \<and>
   statusOf (snd (handleUpiWebhook sampleExternals (webhookOf ''SUCCESS'' (Some ''t1'') None)
                    (sampleWorld ''pending''))) ''t1'' = Some ''completed''"
proof -
  have b: "payments (sampleWorld st) ''t1'' = Some (samplePayment st)" for st
    by (simp add: sampleWorld_def)
  have a: "wh_transactionId (body (webhookOf st (Some ''t1'') sig)) = Some ''t1''" for st sig
    by (simp add: webhookOf_def)
  have s: "wh_status (body (webhookOf st (Some ''t1'') sig)) = Some st" for st sig
    by (simp add: webhookOf_def)
  have v: "verifyTransaction sampleExternals ''0xhash'' = Inr True"
    by (simp add: sampleExternals_def)
  have 0: "statusOf (sampleWorld st) ''t1'' = Some st" for st
    by (simp add: statusOf_def sampleWorld_def samplePayment_def)
  have 1: "statusOf (snd (confirmPayment sampleExternals (confirmBodyOf ''t1'' ''0xhash'')
                    (sampleWorld ''completed''))) ''t1'' = Some ''confirmed''"
    by (simp add: confirmPayment_found [OF b _ _ v] statusOf_def)
  have 2: "statusOf (snd (handleUpiWebhook sampleExternals (webhookOf ''SUCCESS'' (Some ''t1'') None)
                    (sampleWorld st))) ''t1'' = Some ''completed''" for st
    by (simp add: handleUpiWebhook_found [OF a b] s statusOf_def webhookPaymentStatus_def)
  show ?thesis using 0 1 2 by simp
qed

text \<open>
  Claim C2 as amended: the ledger applies no transition guard. For every payment the table
  has, whatever its status, \<open>handleUpiWebhook\<close> succeeds and sets the status to \<open>completed\<close>,
  \<open>failed\<close> or \<open>pending\<close> as the webhook's \<open>status\<close> field says, and \<open>confirmPayment\<close> with a
  verified transaction hash sets it to \<open>confirmed\<close>; the rows of all other payments are left as
  they were.
\<close>

theorem ledger_status_overwritten:
  assumes "payments w tid = Some p"
  shows "(wh_transactionId (body req) = Some tid \<longrightarrow>
            fst (handleUpiWebhook X req w) = Inr ''Webhook processed successfully'' \<and>
            statusOf (snd (handleUpiWebhook X req w)) tid =
              Some (webhookPaymentStatus (wh_status (body req)))) \<and>
         (tid \<noteq> [] \<and> h \<noteq> [] \<and> verifyTransaction X h = Inr True \<longrightarrow>
            statusOf (snd (confirmPayment X (confirmBodyOf tid h) w)) tid = Some ''confirmed'') \<and>
         (\<forall>tid'. tid' \<noteq> tid \<longrightarrow>
            (wh_transactionId (body req) = Some tid \<longrightarrow>
               payments (snd (handleUpiWebhook X req w)) tid' = payments w tid') \<and>
            payments (snd (confirmPayment X (confirmBodyOf tid h) w)) tid' = payments w tid')"
proof (intro conjI impI allI)
  assume t: "wh_transactionId (body req) = Some tid"
  show "fst (handleUpiWebhook X req w) = Inr ''Webhook processed successfully''"
    by (simp add: handleUpiWebhook_found [OF t assms])
  show "statusOf (snd (handleUpiWebhook X req w)) tid =
          Some (webhookPaymentStatus (wh_status (body req)))"
    by (simp add: handleUpiWebhook_found [OF t assms] statusOf_def)
next
  assume "tid \<noteq> [] \<and> h \<noteq> [] \<and> verifyTransaction X h = Inr True"
  then show "statusOf (snd (confirmPayment X (confirmBodyOf tid h) w)) tid = Some ''confirmed''"
    by (simp add: confirmPayment_found [OF assms] statusOf_def)
next
  fix tid' assume "tid' \<noteq> tid" and "wh_transactionId (body req) = Some tid"
  then show "payments (snd (handleUpiWebhook X req w)) tid' = payments w tid'"
    by (intro handleUpiWebhook_other) auto
next
  fix tid' assume "tid' \<noteq> tid"
  then show "payments (snd (confirmPayment X (confirmBodyOf tid h) w)) tid' = payments w tid'"
    by (intro confirmPayment_other) (auto simp: confirmBodyOf_def)
qed

text \<open>The witness: the completed payment is set to \<open>failed\<close> by a webhook and to \<open>confirmed\<close> by a confirmation.\<close>

theorem ledger_status_overwritten_witness:
  "statusOf (sampleWorld ''completed'') ''t1'' = Some ''completed'' \<and>
   statusOf (snd (handleUpiWebhook sampleExternals (webhookOf ''FAILED'' (Some ''t1'') None)
                    (sampleWorld ''completed''))) ''t1'' = Some ''failed'' \<and>
   statusOf (snd (confirmPayment sampleExternals (confirmBodyOf ''t1'' ''0xhash'')
                    (sampleWorld ''completed''))) ''t1'' = Some ''confirmed''"
proof -
  have b: "payments (sampleWorld ''completed'') ''t1'' = Some (samplePayment ''completed'')"
    by (simp add: sampleWorld_def)
  have 0: "statusOf (sampleWorld ''completed'') ''t1'' = Some ''completed''"
    by (simp add: statusOf_def sampleWorld_def samplePayment_def)
  from ledger_status_overwritten [OF b, of "webhookOf ''FAILED'' (Some ''t1'') None" sampleExternals "''0xhash''"]
  show ?thesis using 0
    by (simp add: webhookOf_def webhookPaymentStatus_def sampleExternals_def)
qed

subsection \<open>Re-submitted confirmation\<close>

text \<open>
  Claim C3 says that confirming a payment that is already \<open>confirmed\<close> or \<open>completed\<close> with the
  same transaction hash leaves its state unchanged. Counterexample: the completed payment
  \<open>t1\<close>, confirmed again with its own hash, is answered with success and its status is now
  \<open>confirmed\<close>.
\<close>

theorem confirmPayment_resubmitted_counterexample:
  "payments (sampleWorld ''completed'') ''t1'' = Some (samplePayment ''completed'') \<and>
   status (samplePayment ''completed'') = ''completed'' \<and>
   aptosTransactionHash (samplePayment ''completed'') = Some ''0xhash'' \<and>
   fst (confirmPayment sampleExternals (confirmBodyOf ''t1'' ''0xhash'') (sampleWorld ''completed''))
     = Inr ((samplePayment ''completed'')\<lparr>status := ''confirmed'', updatedAt := 2000\<rparr>) \<and>
   statusOf (snd (confirmPayment sampleExternals (confirmBodyOf ''t1'' ''0xhash'')
                    (sampleWorld ''completed''))) ''t1'' \<noteq> statusOf (sampleWorld ''completed'') ''t1''"
proof -
  have b: "payments (sampleWorld ''completed'') ''t1'' = Some (samplePayment ''completed'')"
    by (simp add: sampleWorld_def)
  have v: "verifyTransaction sampleExternals ''0xhash'' = Inr True"
    by (simp add: sampleExternals_def)
  show ?thesis
    by (simp add: confirmPayment_found [OF b _ _ v] statusOf_def b)
       (simp add: samplePayment_def sampleExternals_def)
qed

text \<open>
  Claim C3 as amended: for a payment already \<open>confirmed\<close> or \<open>completed\<close>, re-submitting
  \<open>confirmPayment\<close> with the same transaction hash (the verification accepting it) is a
  success that makes no payout request and leaves the table as it was but for this row, whose
  status is \<open>confirmed\<close> and whose \<open>updatedAt\<close> is the time of the request; the hash and all
  other fields are unchanged. For a payment that was \<open>confirmed\<close> only \<open>updatedAt\<close> changes.
\<close>

theorem confirmPayment_resubmitted:
  assumes "payments w tid = Some p"
    and "status p = ''confirmed'' \<or> status p = ''completed''"
    and "aptosTransactionHash p = Some h"
    and "tid \<noteq> []" and "h \<noteq> []"
    and "verifyTransaction X h = Inr True"
  shows "confirmPayment X (confirmBodyOf tid h) w =
           (Inr (p\<lparr>status := ''confirmed'', updatedAt := dateNow X\<rparr>),
            w\<lparr>payments := (payments w)(tid \<mapsto> p\<lparr>status := ''confirmed'', updatedAt := dateNow X\<rparr>)\<rparr>) \<and>
         providerCalls (snd (confirmPayment X (confirmBodyOf tid h) w)) = providerCalls w \<and>
         (status p = ''confirmed'' \<longrightarrow>
            p\<lparr>status := ''confirmed'', updatedAt := dateNow X\<rparr> = p\<lparr>updatedAt := dateNow X\<rparr>)"
proof -
  have e: "p\<lparr>status := ''confirmed'', updatedAt := dateNow X, aptosTransactionHash := Some h\<rparr> =
             p\<lparr>status := ''confirmed'', updatedAt := dateNow X\<rparr>"
    using assms(3) by (cases p) simp
  have f: "status p = ''confirmed'' \<Longrightarrow>
             p\<lparr>status := ''confirmed'', updatedAt := dateNow X\<rparr> = p\<lparr>updatedAt := dateNow X\<rparr>"
    by (cases p) simp
  have g: "confirmPayment X (confirmBodyOf tid h) w =
           (Inr (p\<lparr>status := ''confirmed'', updatedAt := dateNow X\<rparr>),
            w\<lparr>payments := (payments w)(tid \<mapsto> p\<lparr>status := ''confirmed'', updatedAt := dateNow X\<rparr>)\<rparr>)"
    using confirmPayment_found [OF assms(1,4,5,6)] by (simp only: e)
  show ?thesis
    using f g by simp
qed

text \<open>The witness: the confirmed payment \<open>t1\<close>, confirmed again with its hash.\<close>

theorem confirmPayment_resubmitted_witness:
  "fst (confirmPayment sampleExternals (confirmBodyOf ''t1'' ''0xhash'') (sampleWorld ''confirmed'')) =
     Inr ((samplePayment ''confirmed'')\<lparr>updatedAt := 2000\<rparr>) \<and>
   payments (snd (confirmPayment sampleExternals (confirmBodyOf ''t1'' ''0xhash'')
                    (sampleWorld ''confirmed''))) ''t1'' =
     Some ((samplePayment ''confirmed'')\<lparr>updatedAt := 2000\<rparr>) \<and>
   providerCalls (snd (confirmPayment sampleExternals (confirmBodyOf ''t1'' ''0xhash'')
                    (sampleWorld ''confirmed''))) = []"
proof -
  have b: "payments (sampleWorld ''confirmed'') ''t1'' = Some (samplePayment ''confirmed'')"
    by (simp add: sampleWorld_def)
  have c: "status (samplePayment ''confirmed'') = ''confirmed'' \<or>
           status (samplePayment ''confirmed'') = ''completed''"
    by (simp add: samplePayment_def)
  have h: "aptosTransactionHash (samplePayment ''confirmed'') = Some ''0xhash''"
    by (simp add: samplePayment_def)
  have v: "verifyTransaction sampleExternals ''0xhash'' = Inr True"
    by (simp add: sampleExternals_def)
  have d: "dateNow sampleExternals = 2000"
    by (simp add: sampleExternals_def)
  have s: "status (samplePayment ''confirmed'') = ''confirmed''"
    by (simp add: samplePayment_def)
  have l: "providerCalls (sampleWorld ''confirmed'') = []"
    by (simp add: sampleWorld_def)
  from confirmPayment_resubmitted [OF b c h _ _ v]
  show ?thesis
    by (simp add: d s l)
qed

subsection \<open>Payout\<close>

lemma initiatePayout_returns:
  "\<exists>r w'. initiatePayout X request w = (Inr r, w')"
  by (auto simp: initiatePayout_def try_catch_def initiatePayout_body_def draw_uuid_def Let_def
           split: prod.splits sum.splits)

lemma initiatePayout_provider_error:
  assumes "\<not> useMock X"
    and "axios_post X (payoutDataOf request (uuidv4 X (uuidsDrawn w))) = Inl e"
  shows "initiatePayout X request w =
           (Inr \<lparr>resp_payoutId = uuidv4 X (Suc (uuidsDrawn w)), resp_status = ''FAILED'',
                 resp_message = ''Failed to initiate payout'', resp_transactionId = None\<rparr>,
            w\<lparr>uuidsDrawn := Suc (Suc (uuidsDrawn w)),
              providerCalls := providerCalls w @ [payoutDataOf request (uuidv4 X (uuidsDrawn w))]\<rparr>)"
  using assms
  by (simp add: initiatePayout_def try_catch_def initiatePayout_body_def draw_uuid_def Let_def)

lemma initiateUpiPayout_rejects:
  assumes "\<not> refersToConfirmed b w"
  shows "\<exists>e. initiateUpiPayout X b w = (Inl e, w)"
  using assms
  by (auto simp: initiateUpiPayout_def refersToConfirmed_def getPaymentById_def
           split: option.splits)

lemma initiateUpiPayout_provider_error:
  assumes "payments w tid = Some p" and "status p = ''confirmed''"
    and "tid \<noteq> []" and "upi \<noteq> []" and "amt \<noteq> 0"
    and "\<not> useMock X"
    and "axios_post X (payoutDataOf
            \<lparr>req_transactionId = tid, req_merchantUpiId = upi, req_amount = amt, req_currency = ''INR''\<rparr>
            (uuidv4 X (uuidsDrawn w))) = Inl e"
  shows "initiateUpiPayout X
           \<lparr>po_transactionId = Some tid, po_merchantUpiId = Some upi, po_amountINR = Some amt\<rparr> w =
         (Inr \<lparr>reply_payoutId = uuidv4 X (Suc (uuidsDrawn w)), reply_status = ''FAILED'',
               reply_message = ''UPI payout initiated successfully''\<rparr>,
          w\<lparr>uuidsDrawn := Suc (Suc (uuidsDrawn w)),
            providerCalls := providerCalls w @
              [payoutDataOf \<lparr>req_transactionId = tid, req_merchantUpiId = upi, req_amount = amt,
                             req_currency = ''INR''\<rparr> (uuidv4 X (uuidsDrawn w))],
            payments := (payments w)(tid \<mapsto>
              p\<lparr>upiPayoutId := Some (uuidv4 X (Suc (uuidsDrawn w))), updatedAt := dateNow X\<rparr>)\<rparr>)"
  using assms
  by (simp add: initiateUpiPayout_def missingFields_def truthy_def getPaymentById_def
        initiatePayout_provider_error updatePaymentPayout_def Let_def)

text \<open>
  Claim C6: \<open>initiateUpiPayout\<close> succeeds only when the payment it names exists and has status
  \<open>confirmed\<close>; for a payment that does not exist or has any other status it answers with an
  error, and the state is unchanged: no body is posted to the provider.
\<close>

theorem initiateUpiPayout_only_confirmed:
  "(\<forall>r w'. initiateUpiPayout X b w = (Inr r, w') \<longrightarrow> refersToConfirmed b w) \<and>
   (\<not> refersToConfirmed b w \<longrightarrow>
      (\<exists>e. initiateUpiPayout X b w = (Inl e, w)) \<and>
      providerCalls (snd (initiateUpiPayout X b w)) = providerCalls w)"
proof (intro conjI allI impI)
  fix r w' assume s: "initiateUpiPayout X b w = (Inr r, w')"
  show "refersToConfirmed b w"
  proof (rule ccontr)
    assume "\<not> refersToConfirmed b w"
    from initiateUpiPayout_rejects [OF this, of X] s show False by auto
  qed
next
  assume n: "\<not> refersToConfirmed b w"
  from initiateUpiPayout_rejects [OF n, of X]
  show "\<exists>e. initiateUpiPayout X b w = (Inl e, w)" .
  from initiateUpiPayout_rejects [OF n, of X]
  show "providerCalls (snd (initiateUpiPayout X b w)) = providerCalls w" by auto
qed

text \<open>
  The witness: the pending payment is refused with "Payment not confirmed yet", an unknown
  key with "Payment not found", and for the completed payment the provider log stays empty.
\<close>

theorem initiateUpiPayout_only_confirmed_witness:
  "\<not> refersToConfirmed (payoutBodyOf ''t1'') (sampleWorld ''pending'') \<and>
   initiateUpiPayout sampleExternals (payoutBodyOf ''t1'') (sampleWorld ''pending'') =
     (Inl (HttpError ''Payment not confirmed yet'' 400), sampleWorld ''pending'') \<and>
   \<not> refersToConfirmed (payoutBodyOf ''t2'') (sampleWorld ''confirmed'') \<and>
   initiateUpiPayout sampleExternals (payoutBodyOf ''t2'') (sampleWorld ''confirmed'') =
     (Inl (HttpError ''Payment not found'' 404), sampleWorld ''confirmed'') \<and>
   providerCalls (snd (initiateUpiPayout sampleExternals (payoutBodyOf ''t1'') (sampleWorld ''completed'')))
     = []"
proof -
  have 1: "\<not> refersToConfirmed (payoutBodyOf ''t1'') (sampleWorld ''pending'')"
    by (simp add: refersToConfirmed_def payoutBodyOf_def sampleWorld_def samplePayment_def)
  have 2: "\<not> refersToConfirmed (payoutBodyOf ''t2'') (sampleWorld ''confirmed'')"
    by (simp add: refersToConfirmed_def payoutBodyOf_def sampleWorld_def)
  have 3: "\<not> refersToConfirmed (payoutBodyOf ''t1'') (sampleWorld ''completed'')"
    by (simp add: refersToConfirmed_def payoutBodyOf_def sampleWorld_def samplePayment_def)
  have 4: "initiateUpiPayout sampleExternals (payoutBodyOf ''t1'') (sampleWorld ''pending'') =
     (Inl (HttpError ''Payment not confirmed yet'' 400), sampleWorld ''pending'')"
    by (simp add: initiateUpiPayout_def payoutBodyOf_def missingFields_def truthy_def
          getPaymentById_def sampleWorld_def samplePayment_def)
  have 5: "initiateUpiPayout sampleExternals (payoutBodyOf ''t2'') (sampleWorld ''confirmed'') =
     (Inl (HttpError ''Payment not found'' 404), sampleWorld ''confirmed'')"
    by (simp add: initiateUpiPayout_def payoutBodyOf_def missingFields_def truthy_def
          getPaymentById_def sampleWorld_def)
  from initiateUpiPayout_only_confirmed
         [of sampleExternals "payoutBodyOf ''t1''" "sampleWorld ''completed''"] 3
  have "providerCalls (snd (initiateUpiPayout sampleExternals (payoutBodyOf ''t1'')
          (sampleWorld ''completed''))) = providerCalls (sampleWorld ''completed'')"
    by blast
  then show ?thesis using 1 2 4 5 by (simp add: sampleWorld_def)
qed

text \<open>
  Claim C9: \<open>UpiService.initiatePayout\<close> never raises. When the provider call fails it returns a
  response with status \<open>FAILED\<close> whose \<open>payoutId\<close> is the identifier drawn next, which differs
  from the \<open>payout_id\<close> posted to the provider (two draws of \<open>uuidv4\<close> being different), and
  the controller stores that second identifier on the payment.
\<close>

theorem initiatePayout_failure_fresh_id:
  assumes "\<not> useMock X"
    and "axios_post X (payoutDataOf
            \<lparr>req_transactionId = tid, req_merchantUpiId = upi, req_amount = amt, req_currency = ''INR''\<rparr>
            (uuidv4 X (uuidsDrawn w))) = Inl e"
    and "uuidv4 X (Suc (uuidsDrawn w)) \<noteq> uuidv4 X (uuidsDrawn w)"
    and "payments w tid = Some p" and "status p = ''confirmed''"
    and "tid \<noteq> []" and "upi \<noteq> []" and "amt \<noteq> 0"
  shows "(\<forall>X' request' w'. \<exists>r w''. initiatePayout X' request' w' = (Inr r, w'')) \<and>
         (\<exists>r w1 reply w2.
            initiatePayout X
              \<lparr>req_transactionId = tid, req_merchantUpiId = upi, req_amount = amt, req_currency = ''INR''\<rparr> w
              = (Inr r, w1) \<and>
            resp_status r = ''FAILED'' \<and>
            resp_payoutId r = uuidv4 X (Suc (uuidsDrawn w)) \<and>
            providerCalls w1 = providerCalls w @
              [payoutDataOf \<lparr>req_transactionId = tid, req_merchantUpiId = upi, req_amount = amt,
                             req_currency = ''INR''\<rparr> (uuidv4 X (uuidsDrawn w))] \<and>
            resp_payoutId r \<noteq> payout_id (last (providerCalls w1)) \<and>
            initiateUpiPayout X
              \<lparr>po_transactionId = Some tid, po_merchantUpiId = Some upi, po_amountINR = Some amt\<rparr> w
              = (Inr reply, w2) \<and>
            reply_payoutId reply = resp_payoutId r \<and>
            reply_status reply = ''FAILED'' \<and>
            providerCalls w2 = providerCalls w1 \<and>
            map_option upiPayoutId (payments w2 tid) = Some (Some (resp_payoutId r)))"
proof (intro conjI allI)
  fix X' request' w'
  show "\<exists>r w''. initiatePayout X' request' w' = (Inr r, w'')"
    by (rule initiatePayout_returns)
next
  show "\<exists>r w1 reply w2.
            initiatePayout X
              \<lparr>req_transactionId = tid, req_merchantUpiId = upi, req_amount = amt, req_currency = ''INR''\<rparr> w
              = (Inr r, w1) \<and>
            resp_status r = ''FAILED'' \<and>
            resp_payoutId r = uuidv4 X (Suc (uuidsDrawn w)) \<and>
            providerCalls w1 = providerCalls w @
              [payoutDataOf \<lparr>req_transactionId = tid, req_merchantUpiId = upi, req_amount = amt,
                             req_currency = ''INR''\<rparr> (uuidv4 X (uuidsDrawn w))] \<and>
            resp_payoutId r \<noteq> payout_id (last (providerCalls w1)) \<and>
            initiateUpiPayout X
              \<lparr>po_transactionId = Some tid, po_merchantUpiId = Some upi, po_amountINR = Some amt\<rparr> w
              = (Inr reply, w2) \<and>
            reply_payoutId reply = resp_payoutId r \<and>
            reply_status reply = ''FAILED'' \<and>
            providerCalls w2 = providerCalls w1 \<and>
            map_option upiPayoutId (payments w2 tid) = Some (Some (resp_payoutId r))"
    using assms(3)
    by (simp add: initiatePayout_provider_error [OF assms(1,2)]
          initiateUpiPayout_provider_error [OF assms(4,5,6,7,8,1,2)] payoutDataOf_def)
qed

text \<open>
  The witness: the provider refuses the connection; \<open>uuid-0\<close> was posted, \<open>uuid-1\<close> is
  returned and stored on the payment \<open>t1\<close>.
\<close>

theorem initiatePayout_failure_fresh_id_witness:
  "\<exists>r w1 reply w2.
     initiatePayout sampleExternals
       \<lparr>req_transactionId = ''t1'', req_merchantUpiId = ''shop@upi'', req_amount = 100,
        req_currency = ''INR''\<rparr> (sampleWorld ''confirmed'') = (Inr r, w1) \<and>
     resp_status r = ''FAILED'' \<and>
     resp_payoutId r = ''uuid-1'' \<and>
     map payout_id (providerCalls w1) = [''uuid-0''] \<and>
     initiateUpiPayout sampleExternals
       \<lparr>po_transactionId = Some ''t1'', po_merchantUpiId = Some ''shop@upi'', po_amountINR = Some 100\<rparr>
       (sampleWorld ''confirmed'') = (Inr reply, w2) \<and>
     reply_payoutId reply = ''uuid-1'' \<and>
     map_option upiPayoutId (payments w2 ''t1'') = Some (Some ''uuid-1'')"
proof -
  have m: "\<not> useMock sampleExternals"
    by (simp add: useMock_def sampleExternals_def)
  have a: "axios_post sampleExternals (payoutDataOf
            \<lparr>req_transactionId = ''t1'', req_merchantUpiId = ''shop@upi'', req_amount = 100,
             req_currency = ''INR''\<rparr>
            (uuidv4 sampleExternals (uuidsDrawn (sampleWorld ''confirmed'')))) = Inl (Rejected ''ECONNREFUSED'')"
    by (simp add: sampleExternals_def)
  have d0: "decimal 0 = ''0''" by code_simp
  have d1: "decimal (Suc 0) = ''1''" by code_simp
  have u0: "uuidv4 sampleExternals (uuidsDrawn (sampleWorld ''confirmed'')) = ''uuid-0''"
    by (simp add: sampleExternals_def sampleWorld_def d0)
  have u1: "uuidv4 sampleExternals (Suc (uuidsDrawn (sampleWorld ''confirmed''))) = ''uuid-1''"
    by (simp add: sampleExternals_def sampleWorld_def d1)
  have u: "uuidv4 sampleExternals (Suc (uuidsDrawn (sampleWorld ''confirmed''))) \<noteq>
           uuidv4 sampleExternals (uuidsDrawn (sampleWorld ''confirmed''))"
    by (simp add: u0 u1)
  have b: "payments (sampleWorld ''confirmed'') ''t1'' = Some (samplePayment ''confirmed'')"
    by (simp add: sampleWorld_def)
  have c: "status (samplePayment ''confirmed'') = ''confirmed''"
    by (simp add: samplePayment_def)
  have l: "providerCalls (sampleWorld ''confirmed'') = []"
    by (simp add: sampleWorld_def)
  from initiatePayout_failure_fresh_id [OF m a u b c]
  show ?thesis
    by (simp add: u0 u1 l payoutDataOf_def) force
qed

section \<open>Properties of the exchange-rate oracle\<close>

lemma try_catch_returns:
  assumes "\<And>e s. \<exists>v s'. handler e s = (Inr v, s')"
  shows "\<exists>v s'. try_catch r handler = (Inr v, s')"
proof (cases r)
  case (Pair a s)
  then show ?thesis
    using assms by (cases a) (simp_all add: try_catch_def)
qed

lemma getFallbackUSDCToINRRate_returns:
  "\<exists>r s. getFallbackUSDCToINRRate S svc = (Inr r, s) \<and> cache s = cache svc"
  by (auto simp: getFallbackUSDCToINRRate_def try_catch_def Let_def split: sum.splits option.splits)

lemma getUSDCToINRRate_returns:
  "\<exists>r s. getUSDCToINRRate S svc = (Inr r, s) \<and> cache s = cache svc"
proof -
  obtain r s where f: "getFallbackUSDCToINRRate S
       (svc\<lparr>requests := requests svc @ [''https://api.coingecko.com/api/v3/simple/price'']\<rparr>) = (Inr r, s)"
     and c: "cache s = cache svc"
    using getFallbackUSDCToINRRate_returns
      [of S "svc\<lparr>requests := requests svc @ [''https://api.coingecko.com/api/v3/simple/price'']\<rparr>"]
    by auto
  show ?thesis
    using f c
    by (auto simp: getUSDCToINRRate_def try_catch_def Let_def split: sum.splits option.splits)
qed

lemma getFallbackUSDCToINRRate_fails:
  "sourceFails (exchangerate_api S) \<Longrightarrow>
   getFallbackUSDCToINRRate S svc =
     (Inr 84, svc\<lparr>requests := requests svc @ [''https://api.exchangerate-api.com/v4/latest/USD'']\<rparr>)"
  by (auto simp: getFallbackUSDCToINRRate_def try_catch_def Let_def sourceFails_def
           split: sum.splits option.splits)

lemma getUSDCToINRRate_fails:
  "sourceFails (coingecko S) \<Longrightarrow> sourceFails (exchangerate_api S) \<Longrightarrow>
   getUSDCToINRRate S svc =
     (Inr 84, svc\<lparr>requests := requests svc @ [''https://api.coingecko.com/api/v3/simple/price'',
                                              ''https://api.exchangerate-api.com/v4/latest/USD'']\<rparr>)"
  by (auto simp: getUSDCToINRRate_def try_catch_def Let_def sourceFails_def
                 getFallbackUSDCToINRRate_fails
           split: sum.splits option.splits)

lemma getExchangeRate_fetch_returns:
  "\<exists>r s. getExchangeRate_fetch S now' fromCurrency toCurrency cached svc = (Inr r, s)"
  unfolding getExchangeRate_fetch_def
  by (rule try_catch_returns) (cases cached; simp; blast)

lemma getExchangeRate_returns:
  "\<exists>r s. getExchangeRate S now now' fromCurrency toCurrency svc = (Inr r, s)"
  using getExchangeRate_fetch_returns
  by (simp add: getExchangeRate_def Let_def split: option.split)

lemma getExchangeRate_hit:
  assumes "cache svc (cacheKeyOf fromCurrency toCurrency) = Some c"
    and "now - timestamp c < 60000"
  shows "getExchangeRate S now now' fromCurrency toCurrency svc = (Inr (rate c), svc)"
  using assms by (simp add: getExchangeRate_def cacheTimeout_def)

lemma getExchangeRate_miss:
  assumes "\<not> cacheValid (cache svc (cacheKeyOf fromCurrency toCurrency)) now"
  shows "getExchangeRate S now now' fromCurrency toCurrency svc =
           getExchangeRate_fetch S now' fromCurrency toCurrency
             (cache svc (cacheKeyOf fromCurrency toCurrency)) svc"
  using assms by (auto simp: getExchangeRate_def cacheValid_def Let_def split: option.splits)

lemma getExchangeRate_total_failure:
  assumes "sourceFails (coingecko S)" and "sourceFails (exchangerate_api S)"
    and "\<not> cacheValid (cache svc ''USDC-INR'') now"
  shows "getExchangeRate S now now' ''USDC'' ''INR'' svc =
           (Inr 84,
            svc\<lparr>requests := requests svc @ [''https://api.coingecko.com/api/v3/simple/price'',
                                            ''https://api.exchangerate-api.com/v4/latest/USD''],
                cache := (cache svc)(''USDC-INR'' \<mapsto> \<lparr>rate = 84, timestamp = now'\<rparr>)\<rparr>)"
proof -
  have k: "cacheKeyOf ''USDC'' ''INR'' = ''USDC-INR''"
    by (simp add: cacheKeyOf_def)
  have f: "fetchRate S ''USDC'' ''INR'' svc =
           (Inr 84, svc\<lparr>requests := requests svc @ [''https://api.coingecko.com/api/v3/simple/price'',
                                              ''https://api.exchangerate-api.com/v4/latest/USD'']\<rparr>)"
    by (simp add: fetchRate_def getUSDCToINRRate_fails [OF assms(1,2)])
  have "getExchangeRate S now now' ''USDC'' ''INR'' svc =
          getExchangeRate_fetch S now' ''USDC'' ''INR'' (cache svc ''USDC-INR'') svc"
    using getExchangeRate_miss [of svc "''USDC''" "''INR''" now S now'] assms(3) by (simp add: k)
  then show ?thesis
    by (simp add: getExchangeRate_fetch_def f try_catch_def k)
qed

text \<open>
  Claim C7 says that \<open>getExchangeRate\<close> never raises and that, when the cache entry is missing
  or expired and both rate sources fail, it returns the last cached value if there is one and
  the constant 84.0 only if there is none. The first part holds. The second fails on the code:
  \<open>getFallbackUSDCToINRRate\<close> swallows the failure of the second source and returns 84.0, so the
  \<open>catch\<close> block of \<open>getExchangeRate\<close> with its comment "Return cached rate if available, even if
  expired" is never entered for USDC/INR. The theorem evaluates the function on a service
  whose entry 83.5 has expired, with both sources failing: it returns 84 and overwrites the
  entry.
\<close>

theorem stale_cache_overridden_by_constant:
  "(\<forall>S now now' fromCurrency toCurrency svc.
       \<exists>r s. getExchangeRate S now now' fromCurrency toCurrency svc = (Inr r, s)) \<and>
   cache staleService ''USDC-INR'' = Some \<lparr>rate = 83.5, timestamp = 0\<rparr> \<and>
   sourceFails (coingecko failingSources) \<and> sourceFails (exchangerate_api failingSources) \<and>
   getExchangeRate failingSources 120000 120001 ''USDC'' ''INR'' staleService =
     (Inr 84,
      \<lparr>cache = [''USDC-INR'' \<mapsto> \<lparr>rate = 84, timestamp = 120001\<rparr>],
       requests = [''https://api.coingecko.com/api/v3/simple/price'',
                   ''https://api.exchangerate-api.com/v4/latest/USD'']\<rparr>)"
proof -
  have a: "sourceFails (coingecko failingSources)"
    by (simp add: sourceFails_def failingSources_def)
  have b: "sourceFails (exchangerate_api failingSources)"
    by (simp add: sourceFails_def failingSources_def)
  have c: "\<not> cacheValid (cache staleService ''USDC-INR'') 120000"
    by (simp add: cacheValid_def staleService_def cacheTimeout_def)
  have d: "cache staleService ''USDC-INR'' = Some \<lparr>rate = 83.5, timestamp = 0\<rparr>"
    by (simp add: staleService_def)
  show ?thesis
    using a b d getExchangeRate_returns
    by (simp add: getExchangeRate_total_failure [OF a b c]) (simp add: staleService_def)
qed

text \<open>
  Claim C10: whenever the fetch of \<open>getExchangeRate\<close> completes without raising, its value is
  written into the cache with the time of the store, and during the following 60 seconds
  every call for the same pair returns that value and leaves the state (the log of fetches
  included) as it is, whatever the sources would answer. With both sources failing the value
  fetched for USDC/INR is the constant 84.
\<close>

theorem fetched_rate_cached_and_served:
  assumes "\<not> cacheValid (cache svc (cacheKeyOf fromCurrency toCurrency)) now"
    and "fetchRate S fromCurrency toCurrency svc = (Inr r, s1)"
  shows "(\<exists>svc'. getExchangeRate S now now' fromCurrency toCurrency svc = (Inr r, svc') \<and>
            cache svc' (cacheKeyOf fromCurrency toCurrency) = Some \<lparr>rate = r, timestamp = now'\<rparr> \<and>
            (\<forall>S2 t t'. t - now' < 60000 \<longrightarrow>
                getExchangeRate S2 t t' fromCurrency toCurrency svc' = (Inr r, svc'))) \<and>
         (fromCurrency = ''USDC'' \<and> toCurrency = ''INR'' \<and>
          sourceFails (coingecko S) \<and> sourceFails (exchangerate_api S) \<longrightarrow> r = 84)"
proof (intro conjI impI)
  let ?svc' = "s1\<lparr>cache := (cache s1)(cacheKeyOf fromCurrency toCurrency \<mapsto> \<lparr>rate = r, timestamp = now'\<rparr>)\<rparr>"
  have g: "getExchangeRate S now now' fromCurrency toCurrency svc = (Inr r, ?svc')"
    by (simp add: getExchangeRate_miss [OF assms(1)] getExchangeRate_fetch_def assms(2) try_catch_def)
  have c: "cache ?svc' (cacheKeyOf fromCurrency toCurrency) = Some \<lparr>rate = r, timestamp = now'\<rparr>"
    by simp
  have h: "getExchangeRate S2 t t' fromCurrency toCurrency ?svc' = (Inr r, ?svc')"
    if "t - now' < 60000" for S2 t t'
    using getExchangeRate_hit [OF c, of t S2 t'] that by simp
  show "\<exists>svc'. getExchangeRate S now now' fromCurrency toCurrency svc = (Inr r, svc') \<and>
            cache svc' (cacheKeyOf fromCurrency toCurrency) = Some \<lparr>rate = r, timestamp = now'\<rparr> \<and>
            (\<forall>S2 t t'. t - now' < 60000 \<longrightarrow>
                getExchangeRate S2 t t' fromCurrency toCurrency svc' = (Inr r, svc'))"
    using g c h by blast
next
  assume "fromCurrency = ''USDC'' \<and> toCurrency = ''INR'' \<and>
          sourceFails (coingecko S) \<and> sourceFails (exchangerate_api S)"
  then show "r = 84"
    using assms(2) by (simp add: fetchRate_def getUSDCToINRRate_fails)
qed

text \<open>
  The witness: both sources fail on an empty cache, 84 is stored at time 1001, and a call at
  time 61000 with sources that would answer 83.2 still returns 84 without a fetch.
\<close>

theorem fetched_rate_cached_and_served_witness:
  "\<exists>svc'. getExchangeRate failingSources 1000 1001 ''USDC'' ''INR'' emptyService = (Inr 84, svc') \<and>
          cache svc' ''USDC-INR'' = Some \<lparr>rate = 84, timestamp = 1001\<rparr> \<and>
          getExchangeRate healthySources 61000 61001 ''USDC'' ''INR'' svc' = (Inr 84, svc')"
proof -
  have a: "sourceFails (coingecko failingSources)"
    by (simp add: sourceFails_def failingSources_def)
  have b: "sourceFails (exchangerate_api failingSources)"
    by (simp add: sourceFails_def failingSources_def)
  have m: "\<not> cacheValid (cache emptyService (cacheKeyOf ''USDC'' ''INR'')) 1000"
    by (simp add: cacheValid_def emptyService_def)
  have f: "fetchRate failingSources ''USDC'' ''INR'' emptyService =
             (Inr 84, emptyService\<lparr>requests := requests emptyService @
                 [''https://api.coingecko.com/api/v3/simple/price'',
                  ''https://api.exchangerate-api.com/v4/latest/USD'']\<rparr>)"
    by (simp add: fetchRate_def getUSDCToINRRate_fails [OF a b])
  have k: "cacheKeyOf ''USDC'' ''INR'' = ''USDC-INR''"
    by (simp add: cacheKeyOf_def)
  from fetched_rate_cached_and_served [OF m f, of 1001]
  obtain svc' where
    1: "getExchangeRate failingSources 1000 1001 ''USDC'' ''INR'' emptyService = (Inr 84, svc')"
    and 2: "cache svc' ''USDC-INR'' = Some \<lparr>rate = 84, timestamp = 1001\<rparr>"
    and 3: "\<forall>S2 t t'. t - 1001 < 60000 \<longrightarrow>
                getExchangeRate S2 t t' ''USDC'' ''INR'' svc' = (Inr 84, svc')"
    unfolding k by blast
  from 3 have "getExchangeRate healthySources 61000 61001 ''USDC'' ''INR'' svc' = (Inr 84, svc')"
    by simp
  with 1 2 show ?thesis by blast
qed

section \<open>Properties of the QR payload parser\<close>

lemma lastOr_snoc: "lastOr d (xs @ [x]) = x"
  by (simp add: lastOr_def)

lemma lastOr_Nil: "lastOr d [] = d"
  by (simp add: lastOr_def)

lemma str_includes_nonempty: "str_includes s (c # cs) \<Longrightarrow> s \<noteq> []"
  by (cases s) auto

lemma altStep_address:
  "fst (altStep st x) = (if isAddressLine x then x else fst st)"
  by (cases st) (simp add: altStep_def isAddressLine_def split: option.split)

lemma altStep_name:
  "fst (snd (altStep st x)) = (if isNameLine x then x else fst (snd st))"
  by (cases st)
     (simp add: altStep_def isNameLine_def isAddressLine_def isAmountLine_def split: option.split)

lemma foldl_altStep_address:
  "fst (foldl altStep st ls) = lastOr (fst st) (filter isAddressLine ls)"
  by (induction ls rule: rev_induct) (simp_all add: lastOr_Nil lastOr_snoc altStep_address)

lemma foldl_altStep_name:
  "fst (snd (foldl altStep st ls)) = lastOr (fst (snd st)) (filter isNameLine ls)"
  by (induction ls rule: rev_induct) (simp_all add: lastOr_Nil lastOr_snoc altStep_name)

lemma foldl_altStep:
  "\<exists>am'. foldl altStep (pa, pn, am) ls =
     (lastOr pa (filter isAddressLine ls), lastOr pn (filter isNameLine ls), am')"
proof -
  obtain a n m where f: "foldl altStep (pa, pn, am) ls = (a, n, m)"
    by (metis prod.collapse)
  from foldl_altStep_address [of "(pa, pn, am)" ls] foldl_altStep_name [of "(pa, pn, am)" ls]
  show ?thesis by (simp add: f)
qed

text \<open>
  Claim C5 says that the heuristic parser takes as payee name the first line of length above 3
  with no \<open>@\<close> and no digit. Counterexample: of the two candidate lines \<open>Tea Shop\<close> and
  \<open>Good Food\<close> the parser returns the second, and the candidate \<open>Farmers Market\<close>, which
  contains \<open>rs\<close>, is taken for an amount line and never becomes the name.
\<close>

theorem heuristic_first_name_counterexample:
  "map_option payeeName (parseAlternativeUPIFormat twoNames) = Some ''Good Food'' \<and>
   claimedPayeeName twoNames = ''Tea Shop'' \<and>
   map_option payeeName (parseAlternativeUPIFormat farmers) = Some ''Unknown Merchant'' \<and>
   claimedPayeeName farmers = ''Farmers Market''"
  by code_simp

text \<open>
  Claim C5 as amended: the heuristic parser returns \<open>null\<close> exactly when no trimmed line
  contains \<open>@\<close>; otherwise the payee address is the last line containing \<open>@\<close> and the payee
  name is the last line that has no \<open>@\<close>, mentions neither \<open>amount\<close> nor \<open>rs\<close> in any case,
  is longer than 3 characters and has no digit (\<open>Unknown Merchant\<close> when there is none). The
  input \<open>shop@paytm / Tea Shop / Amount: Rs 20\<close> yields address \<open>shop@paytm\<close>, name
  \<open>Tea Shop\<close> and amount \<open>20\<close>.
\<close>

theorem parseAlternativeUPIFormat_last_name_line:
  "(case parseAlternativeUPIFormat data of
      None \<Rightarrow> filter isAddressLine (linesOf data) = []
    | Some u \<Rightarrow>
        filter isAddressLine (linesOf data) \<noteq> [] \<and>
        payeeAddress u = last (filter isAddressLine (linesOf data)) \<and>
        payeeName u = lastOr ''Unknown Merchant'' (filter isNameLine (linesOf data))) \<and>
   parseAlternativeUPIFormat teaShop =
     Some \<lparr>payeeAddress = ''shop@paytm'', payeeName = ''Tea Shop'', amount = ''20'',
           transactionNote = '''', merchantCode = '''', transactionRef = '''', rawData = teaShop\<rparr>"
proof
  let ?ls = "linesOf data"
  obtain am' where f: "foldl altStep ('''', ''Unknown Merchant'', '''') ?ls =
      (lastOr '''' (filter isAddressLine ?ls), lastOr ''Unknown Merchant'' (filter isNameLine ?ls), am')"
    using foldl_altStep [of "''''" "''Unknown Merchant''" "''''" ?ls] by blast
  show "case parseAlternativeUPIFormat data of
      None \<Rightarrow> filter isAddressLine (linesOf data) = []
    | Some u \<Rightarrow>
        filter isAddressLine (linesOf data) \<noteq> [] \<and>
        payeeAddress u = last (filter isAddressLine (linesOf data)) \<and>
        payeeName u = lastOr ''Unknown Merchant'' (filter isNameLine (linesOf data))"
  proof (cases "filter isAddressLine ?ls = []")
    case True
    then show ?thesis
      using f by (simp add: parseAlternativeUPIFormat_def linesOf_def [symmetric] lastOr_Nil)
  next
    case False
    then have l: "lastOr '''' (filter isAddressLine ?ls) = last (filter isAddressLine ?ls)"
      by (cases "filter isAddressLine ?ls" rule: rev_cases) (simp_all add: lastOr_snoc)
    have "last (filter isAddressLine ?ls) \<in> set (filter isAddressLine ?ls)"
      using False by (rule last_in_set)
    then have "isAddressLine (last (filter isAddressLine ?ls))"
      by simp
    then have n: "last (filter isAddressLine ?ls) \<noteq> []"
      unfolding isAddressLine_def by (rule str_includes_nonempty)
    show ?thesis
      using f False n by (simp add: parseAlternativeUPIFormat_def linesOf_def [symmetric] l)
  qed
next
  show "parseAlternativeUPIFormat teaShop =
     Some \<lparr>payeeAddress = ''shop@paytm'', payeeName = ''Tea Shop'', amount = ''20'',
           transactionNote = '''', merchantCode = '''', transactionRef = '''', rawData = teaShop\<rparr>"
    by code_simp
qed

lemma parseUPIQRCode_url_form:
  assumes "startsWith data ''upi://pay''" and "URL_searchParams data = Some params"
  shows "parseUPIQRCode URL_searchParams jsonDialect data =
           (if or_default (params_get params ''pa'') '''' = [] then None
            else Some \<lparr>payeeAddress = or_default (params_get params ''pa'') '''',
                       payeeName = or_default (params_get params ''pn'') '''',
                       amount = or_default (params_get params ''am'') '''',
                       transactionNote =
                         or_default (js_or (params_get params ''tn'') (params_get params ''tr'')) '''',
                       merchantCode =
                         or_default (js_or (params_get params ''mc'') (params_get params ''mid'')) '''',
                       transactionRef =
                         or_default (js_or (params_get params ''tr'') (params_get params ''tid'')) '''',
                       rawData = data\<rparr>)"
  using assms by (simp add: parseUPIQRCode_def Let_def)

text \<open>
  Claim C4 says that for a string beginning with \<open>upi://pay\<close> the payee name defaults to
  \<open>Unknown Merchant\<close>, the amount is read from \<open>am\<close> or \<open>amount\<close> and the note from \<open>tn\<close> or
  \<open>note\<close>. That is what \<open>parseUPIURL\<close> does, but \<open>parseUPIQRCode\<close> never hands such a string
  to it: its first branch parses every string with that prefix itself, with the empty string
  as default name, \<open>am\<close> alone for the amount and \<open>tn\<close> or \<open>tr\<close> for the note. The theorem
  evaluates both functions at \<open>upi://pay?pa=shop@upi\<close> and at
  \<open>upi://pay?pa=a@b&amount=5&note=hi\<close>.
\<close>

theorem upi_pay_prefix_defaults:
  "parseUPIQRCode observedURL jsonDialect ''upi://pay?pa=shop@upi'' =
     Some \<lparr>payeeAddress = ''shop@upi'', payeeName = '''', amount = '''', transactionNote = '''',
           merchantCode = '''', transactionRef = '''', rawData = ''upi://pay?pa=shop@upi''\<rparr> \<and>
   parseUPIURL observedURL ''upi://pay?pa=shop@upi'' =
     Some \<lparr>payeeAddress = ''shop@upi'', payeeName = ''Unknown Merchant'', amount = '''',
           transactionNote = '''', merchantCode = '''', transactionRef = '''',
           rawData = ''upi://pay?pa=shop@upi''\<rparr> \<and>
   parseUPIQRCode observedURL jsonDialect ''upi://pay?pa=a@b&amount=5&note=hi'' =
     Some \<lparr>payeeAddress = ''a@b'', payeeName = '''', amount = '''', transactionNote = '''',
           merchantCode = '''', transactionRef = '''', rawData = ''upi://pay?pa=a@b&amount=5&note=hi''\<rparr> \<and>
   parseUPIURL observedURL ''upi://pay?pa=a@b&amount=5&note=hi'' =
     Some \<lparr>payeeAddress = ''a@b'', payeeName = ''Unknown Merchant'', amount = ''5'',
           transactionNote = ''hi'', merchantCode = '''', transactionRef = '''',
           rawData = ''upi://pay?pa=a@b&amount=5&note=hi''\<rparr>"
proof -
  have s1: "startsWith ''upi://pay?pa=shop@upi'' ''upi://pay''"
    by (simp add: startsWith_def)
  have s2: "startsWith ''upi://pay?pa=a@b&amount=5&note=hi'' ''upi://pay''"
    by (simp add: startsWith_def)
  have u1: "observedURL ''upi://pay?pa=shop@upi'' = Some [(''pa'', ''shop@upi'')]"
    by (simp add: observedURL_def)
  have u2: "observedURL ''upi://pay?pa=a@b&amount=5&note=hi'' =
              Some [(''pa'', ''a@b''), (''amount'', ''5''), (''note'', ''hi'')]"
    by (simp add: observedURL_def)
  have r1: "replaceFirst ''upi://'' ''https://'' ''upi://pay?pa=shop@upi'' = ''https://pay?pa=shop@upi''"
    by (simp add: startsWith_def)
  have r2: "replaceFirst ''upi://'' ''https://'' ''upi://pay?pa=a@b&amount=5&note=hi'' =
              ''https://pay?pa=a@b&amount=5&note=hi''"
    by (simp add: startsWith_def)
  have h1: "observedURL ''https://pay?pa=shop@upi'' = Some [(''pa'', ''shop@upi'')]"
    by (simp add: observedURL_def)
  have h2: "observedURL ''https://pay?pa=a@b&amount=5&note=hi'' =
              Some [(''pa'', ''a@b''), (''amount'', ''5''), (''note'', ''hi'')]"
    by (simp add: observedURL_def)
  have p1: "params_get [(''pa'', ''shop@upi'')] k =
              (if k = ''pa'' then Some ''shop@upi'' else None)" for k
    by (simp add: params_get_def)
  have p2: "params_get [(''pa'', ''a@b''), (''amount'', ''5''), (''note'', ''hi'')] k =
              (if k = ''pa'' then Some ''a@b'' else if k = ''amount'' then Some ''5''
               else if k = ''note'' then Some ''hi'' else None)" for k
    by (simp add: params_get_def)
  have a: "parseUPIQRCode observedURL jsonDialect ''upi://pay?pa=shop@upi'' =
     Some \<lparr>payeeAddress = ''shop@upi'', payeeName = '''', amount = '''', transactionNote = '''',
           merchantCode = '''', transactionRef = '''', rawData = ''upi://pay?pa=shop@upi''\<rparr>"
    unfolding parseUPIQRCode_url_form [where URL_searchParams = observedURL, OF s1 u1]
    by (simp add: p1 or_default_def js_or_def truthy_def Let_def)
  have b: "parseUPIURL observedURL ''upi://pay?pa=shop@upi'' =
     Some \<lparr>payeeAddress = ''shop@upi'', payeeName = ''Unknown Merchant'', amount = '''',
           transactionNote = '''', merchantCode = '''', transactionRef = '''',
           rawData = ''upi://pay?pa=shop@upi''\<rparr>"
    unfolding parseUPIURL_def r1 h1
    by (simp add: p1 or_default_def js_or_def truthy_def Let_def)
  have c: "parseUPIQRCode observedURL jsonDialect ''upi://pay?pa=a@b&amount=5&note=hi'' =
     Some \<lparr>payeeAddress = ''a@b'', payeeName = '''', amount = '''', transactionNote = '''',
           merchantCode = '''', transactionRef = '''', rawData = ''upi://pay?pa=a@b&amount=5&note=hi''\<rparr>"
    unfolding parseUPIQRCode_url_form [where URL_searchParams = observedURL, OF s2 u2]
    by (simp add: p2 or_default_def js_or_def truthy_def Let_def)
  have d: "parseUPIURL observedURL ''upi://pay?pa=a@b&amount=5&note=hi'' =
     Some \<lparr>payeeAddress = ''a@b'', payeeName = ''Unknown Merchant'', amount = ''5'',
           transactionNote = ''hi'', merchantCode = '''', transactionRef = '''',
           rawData = ''upi://pay?pa=a@b&amount=5&note=hi''\<rparr>"
    unfolding parseUPIURL_def r2 h2
    by (simp add: p2 or_default_def js_or_def truthy_def Let_def)
  show ?thesis
    using a b c d by (intro conjI)
qed

end
